theory Spec2Isabelle
  imports Complex_Main "HOL-Library.Multiset"
begin

section \<open>Data model\<close>

text \<open>
  The quote service (\<^verbatim>\<open>src/quote_service/main.py\<close>) and the aggregator
  (\<^verbatim>\<open>src/aggregator_service/main.py\<close>) are embedded function by function.

  \<^item> A quote is the decoded body of the upstream's \<^verbatim>\<open>GET /quote\<close>: a dict from
    symbols to prices, as \<^verbatim>\<open>src/external_service/main.py\<close> answers it. Python dicts
    compare by content, so a quote is a map. Prices are Python floats; the model reads
    them as real numbers (rounding is not modelled).
  \<^item> A timestamp is an instant on the time line, counted in microseconds.
  \<^item> A string is the list of the bytes of its UTF-8 form: an ASCII character is one byte
    below 128, and every byte of another character is 128 or more.
\<close>

type_synonym quote = "string \<rightharpoonup> real"

type_synonym instant = int

text \<open>The exceptions the two services can see.\<close>

datatype exn =
    RequestError            \<comment> \<open>\<^verbatim>\<open>httpx.RequestError\<close>: transport failure, timeout\<close>
  | HTTPStatusError         \<comment> \<open>\<^verbatim>\<open>httpx.HTTPStatusError\<close>, from \<^verbatim>\<open>raise_for_status\<close>\<close>
  | JSONDecodeError         \<comment> \<open>\<^verbatim>\<open>response.json()\<close> on a body that is not JSON\<close>
  | RedisConnectionError    \<comment> \<open>\<^verbatim>\<open>redis.exceptions.ConnectionError\<close>\<close>
  | DatabaseError           \<comment> \<open>any exception of the database driver\<close>
  | HTTPException nat string  \<comment> \<open>\<^verbatim>\<open>fastapi.HTTPException(status_code, detail)\<close>\<close>

text \<open>
  The outcome of one \<^verbatim>\<open>client.get(url)\<close>: the request fails in transport, or a
  response arrives, with a status that is a success (2xx) or not, and a body that decodes
  to a value or does not (\<open>None\<close>).
\<close>

datatype 'a http = RequestFails | Responds bool "'a option"

section \<open>Quote service: the fetch with bounded retry\<close>

text \<open>
  The body of \<^verbatim>\<open>fetch_quote_from_external_service\<close>, one attempt:
  \<^verbatim>\<open>
    response = await client.get(EXTERNAL_SERVICE_URL)
    response.raise_for_status()
    new_quote = response.json()
    global last_known_quote
    last_known_quote = new_quote
    return new_quote
  \<close>
  It takes the outcome of the GET and the global \<^verbatim>\<open>last_known_quote\<close> (\<open>lkq\<close>),
  and returns the result (an exception or the quote) with the global after the attempt.
\<close>

definition attempt :: "quote http \<Rightarrow> quote \<Rightarrow> (exn + quote) \<times> quote" where
  "attempt r lkq =
     (case r of
        RequestFails \<Rightarrow> (Inl RequestError, lkq)
      | Responds is_success body \<Rightarrow>
          if \<not> is_success then (Inl HTTPStatusError, lkq)
          else (case body of
                  None \<Rightarrow> (Inl JSONDecodeError, lkq)
                | Some new_quote \<Rightarrow> (Inr new_quote, new_quote)))"

text \<open>
  \<^verbatim>\<open>retry=retry_if_exception_type((httpx.RequestError, httpx.HTTPStatusError))\<close>
\<close>

fun retry_if_exception_type :: "exn \<Rightarrow> bool" where
  "retry_if_exception_type RequestError = True"
| "retry_if_exception_type HTTPStatusError = True"
| "retry_if_exception_type _ = False"

text \<open>\<^verbatim>\<open>stop=stop_after_attempt(3)\<close>: stop once the attempt number has reached 3.\<close>

definition stop_after_attempt :: "nat \<Rightarrow> bool" where
  "stop_after_attempt attempt_number = (3 \<le> attempt_number)"

text \<open>
  The loop of the \<^verbatim>\<open>@retry\<close> decorator, from attempt number \<open>n\<close> on. \<open>upstream n\<close>
  is what the upstream does at attempt \<open>n\<close>. An attempt that returns ends the loop with
  its value; an exception that is not retried propagates; a retried exception at the
  stop condition calls
  \<^verbatim>\<open>retry_error_callback=lambda _: last_known_quote\<close>, which reads the global as it
  is then; otherwise the next attempt follows (after \<^verbatim>\<open>wait_fixed(2)\<close>).
\<close>

function retrying :: "nat \<Rightarrow> (nat \<Rightarrow> quote http) \<Rightarrow> quote \<Rightarrow> (exn + quote) \<times> quote" where
  "retrying n upstream lkq =
     (case attempt (upstream n) lkq of
        (Inr new_quote, lkq') \<Rightarrow> (Inr new_quote, lkq')
      | (Inl e, lkq') \<Rightarrow>
          if \<not> retry_if_exception_type e then (Inl e, lkq')
          else if stop_after_attempt n then (Inr lkq', lkq')
          else retrying (Suc n) upstream lkq')"
  by pat_completeness auto
termination
  by (relation "measure (\<lambda>(n, upstream, lkq). 3 - n)") (auto simp: stop_after_attempt_def)

declare retrying.simps [simp del]

definition fetch_quote_from_external_service ::
    "(nat \<Rightarrow> quote http) \<Rightarrow> quote \<Rightarrow> (exn + quote) \<times> quote" where
  "fetch_quote_from_external_service upstream lkq = retrying 1 upstream lkq"

text \<open>An attempt fails with a transport error or a non-2xx status.\<close>

fun fails_retryably :: "'a http \<Rightarrow> bool" where
  "fails_retryably RequestFails = True"
| "fails_retryably (Responds is_success body) = (\<not> is_success)"

text \<open>The seed of the cache: \<^verbatim>\<open>last_known_quote = {"bitcoin": 0.0, "ethereum": 0.0}\<close>.\<close>

definition initial_quote :: quote where
  "initial_quote = [''bitcoin'' \<mapsto> 0, ''ethereum'' \<mapsto> 0]"

section \<open>Storage: one \<^verbatim>\<open>quote_logs\<close> table per shard\<close>

text \<open>
  A row of \<^verbatim>\<open>quote_logs (id SERIAL, coin, price, timestamp)\<close>. The table is the list of
  its rows in insertion order (the order of \<^verbatim>\<open>id\<close>).
\<close>

record log_entry =
  coin :: string
  price :: real
  timestamp :: instant

text \<open>
  A shard as the services see it through \<^verbatim>\<open>databases.Database\<close>:
  \<^item> \<open>online\<close>: whether a statement sent now is executed; when it is not, the driver
    raises;
  \<^item> \<open>quote_logs\<close>: the table;
  \<^item> \<open>scan\<close>: the order in which the engine hands the selected rows to the sort. SQL
    leaves it open, and so the order among rows whose sort keys are equal: the queries
    below say \<^verbatim>\<open>ORDER BY timestamp DESC\<close> and nothing else.
\<close>

record database =
  online :: bool
  quote_logs :: "log_entry list"
  scan :: "log_entry list \<Rightarrow> log_entry list"

text \<open>An engine hands over the selected rows, each once, in some order.\<close>

definition lawful :: "database \<Rightarrow> bool" where
  "lawful db = (\<forall>rows. mset (scan db rows) = mset rows)"

text \<open>
  \<^verbatim>\<open>SELECT ... FROM quote_logs WHERE coin = :coin ORDER BY timestamp DESC LIMIT :limit\<close>
  The sort is by the key alone (a stable sort of what \<open>scan\<close> delivers), so that the
  answers over all engines are the answers SQL allows: the first \<open>limit\<close> rows of any
  arrangement of the selected rows that descends in timestamp. \<open>limit\<close> is a count
  (the one call in the repository passes the default, 5).
\<close>

definition select_recent :: "database \<Rightarrow> string \<Rightarrow> nat \<Rightarrow> log_entry list" where
  "select_recent db c limit =
     take limit (sort_key (\<lambda>r. - timestamp r) (scan db (filter (\<lambda>r. coin r = c) (quote_logs db))))"

text \<open>\<^verbatim>\<open>await db.fetch_all(query=query, values=...)\<close> for that query.\<close>

definition fetch_all :: "database \<Rightarrow> string \<Rightarrow> nat \<Rightarrow> exn + log_entry list" where
  "fetch_all db c limit =
     (if online db then Inr (select_recent db c limit) else Inl DatabaseError)"

text \<open>
  \<^verbatim>\<open>await db.execute(query=query, values=values)\<close> for
  \<^verbatim>\<open>INSERT INTO quote_logs (coin, price, timestamp) VALUES (:coin, :price, :timestamp)\<close>
\<close>

definition execute :: "database \<Rightarrow> log_entry \<Rightarrow> exn + database" where
  "execute db row =
     (if online db then Inr (db\<lparr>quote_logs := quote_logs db @ [row]\<rparr>) else Inl DatabaseError)"

section \<open>Quote service: state, persistence and the refresh loop\<close>

text \<open>The Redis broker: whether it can be reached, and what was published on \<^verbatim>\<open>precos\<close>.\<close>

record redis =
  reachable :: bool
  precos :: "quote list"

text \<open>The module's globals.\<close>

record state =
  last_known_quote :: quote
  redis_pool :: redis
  shard1_db :: database
  shard2_db :: database

text \<open>
  A procedure returns \<open>(None, s')\<close> when it returns normally and \<open>(Some e, s')\<close> when
  it raises \<open>e\<close>, with the state \<open>s'\<close> it leaves behind.

  \<^verbatim>\<open>
  async def store_log(coin: str, price: float):
      timestamp = datetime.utcnow()
      if coin == "bitcoin":
          db = shard1_db
      elif coin == "ethereum":
          db = shard2_db
      else:
          return  # Nao armazena logs para outras moedas
      ...
      try:
          await db.execute(query=query, values=values)
      except Exception as e:
          print(...)
  \<close>
  \<open>now\<close> is what \<^verbatim>\<open>datetime.utcnow()\<close> answers.
\<close>

definition store_log :: "string \<Rightarrow> real \<Rightarrow> instant \<Rightarrow> state \<Rightarrow> exn option \<times> state" where
  "store_log c p now s =
     (let values = \<lparr>coin = c, price = p, timestamp = now\<rparr> in
      if c = ''bitcoin'' then
        (case execute (shard1_db s) values of
           Inr db \<Rightarrow> (None, s\<lparr>shard1_db := db\<rparr>)
         | Inl e \<Rightarrow> (None, s))
      else if c = ''ethereum'' then
        (case execute (shard2_db s) values of
           Inr db \<Rightarrow> (None, s\<lparr>shard2_db := db\<rparr>)
         | Inl e \<Rightarrow> (None, s))
      else (None, s))"

text \<open>\<^verbatim>\<open>await redis_pool.publish("precos", json.dumps(quote))\<close>\<close>

definition publish :: "quote \<Rightarrow> state \<Rightarrow> exn option \<times> state" where
  "publish q s =
     (if reachable (redis_pool s)
      then (None, s\<lparr>redis_pool := (redis_pool s)\<lparr>precos := precos (redis_pool s) @ [q]\<rparr>\<rparr>)
      else (Some RedisConnectionError, s))"

text \<open>\<^verbatim>\<open>quote.get(key, default)\<close>\<close>

definition dict_get :: "quote \<Rightarrow> string \<Rightarrow> real \<Rightarrow> real" where
  "dict_get q k d = (case q k of Some v \<Rightarrow> v | None \<Rightarrow> d)"

text \<open>\<^verbatim>\<open>all(v == 0 for v in last_known_quote.values())\<close>\<close>

definition all_zero :: "quote \<Rightarrow> bool" where
  "all_zero q = (\<forall>v \<in> ran q. v = 0)"

text \<open>
  What one cycle meets: the upstream's answers to the attempts of the fetch (by attempt
  number), and the clock read by the two calls of \<^verbatim>\<open>store_log\<close>.
\<close>

record cycle_env =
  answers :: "nat \<Rightarrow> quote http"
  utcnow1 :: instant
  utcnow2 :: instant

text \<open>
  One iteration of the \<^verbatim>\<open>while True\<close> of \<^verbatim>\<open>background_quote_updater\<close>, after the sleep:
  \<^verbatim>\<open>
    quote = await fetch_quote_from_external_service()
    if not quote or quote == last_known_quote and all(v == 0 for v in last_known_quote.values()):
        continue
    await redis_pool.publish("precos", json.dumps(quote))
    await store_log("bitcoin", quote.get("bitcoin", 0.0))
    await store_log("ethereum", quote.get("ethereum", 0.0))
  \<close>
  Nothing in the body catches an exception: what a statement raises leaves the iteration.
\<close>

definition cycle :: "cycle_env \<Rightarrow> state \<Rightarrow> exn option \<times> state" where
  "cycle env s =
     (case fetch_quote_from_external_service (answers env) (last_known_quote s) of
        (Inl e, lkq) \<Rightarrow> (Some e, s\<lparr>last_known_quote := lkq\<rparr>)
      | (Inr quote, lkq) \<Rightarrow>
          (let s1 = s\<lparr>last_known_quote := lkq\<rparr> in
           if quote = Map.empty \<or> (quote = last_known_quote s1 \<and> all_zero (last_known_quote s1))
           then (None, s1)
           else
             (case publish quote s1 of
                (Some e, s2) \<Rightarrow> (Some e, s2)
              | (None, s2) \<Rightarrow>
                  (case store_log ''bitcoin'' (dict_get quote ''bitcoin'' 0) (utcnow1 env) s2 of
                     (Some e, s3) \<Rightarrow> (Some e, s3)
                   | (None, s3) \<Rightarrow>
                       store_log ''ethereum'' (dict_get quote ''ethereum'' 0) (utcnow2 env) s3))))"

text \<open>
  The loop, run over the cycles whose environments are given: an exception that leaves
  an iteration leaves the loop, and the cycles after it never run. \<open>(None, s)\<close> is the
  loop still running after the last given cycle.
\<close>

fun background_quote_updater :: "cycle_env list \<Rightarrow> state \<Rightarrow> exn option \<times> state" where
  "background_quote_updater [] s = (None, s)"
| "background_quote_updater (env # envs) s =
     (case cycle env s of
        (Some e, s') \<Rightarrow> (Some e, s')
      | (None, s') \<Rightarrow> background_quote_updater envs s')"

section \<open>Quote service: the read endpoints\<close>

text \<open>
  \<^verbatim>\<open>str.lower()\<close> on a string of ASCII characters: the letters A to Z (codes 65 to 90)
  move to a to z (32 higher), every other character stays. \<open>lower\<close> does this to the
  ASCII characters of any string and leaves the bytes of the other characters in place.
\<close>

definition lower_char :: "char \<Rightarrow> char" where
  "lower_char c =
     (let n = of_char c :: nat in if 65 \<le> n \<and> n \<le> 90 then char_of (n + 32) else c)"

definition lower :: "string \<Rightarrow> string" where
  "lower s = map lower_char s"



text \<open>The letters with a diacritic in the messages, as UTF-8.\<close>

definition a_tilde :: string where "a_tilde = [CHR 0xC3, CHR 0xA3]"
definition i_acute :: string where "i_acute = [CHR 0xC3, CHR 0xAD]"
definition e_acute :: string where "e_acute = [CHR 0xC3, CHR 0xA9]"



text \<open>\<^verbatim>\<open>{"coin": coin, "average_price": ..., "log_count": ...}\<close>\<close>

record average =
  average_coin :: string
  average_price :: real
  log_count :: nat

text \<open>
  The part of \<^verbatim>\<open>get_average_last_10\<close> after the shard is chosen:
  \<^verbatim>\<open>
    query = "SELECT price FROM quote_logs WHERE coin = :coin ORDER BY timestamp DESC LIMIT 10"
    results = await db.fetch_all(query=query, values={"coin": coin.lower()})
    if not results:
        return {"coin": coin, "average_price": 0, "log_count": 0}
    total_price = sum(row["price"] for row in results)
    average_price = total_price / len(results)
    return {"coin": coin, "average_price": average_price, "log_count": len(results)}
  \<close>
\<close>

definition average_of_last_10 :: "database \<Rightarrow> string \<Rightarrow> exn + average" where
  "average_of_last_10 db c =
     (case fetch_all db (lower c) 10 of
        Inl e \<Rightarrow> Inl e
      | Inr results \<Rightarrow>
          if results = [] then Inr \<lparr>average_coin = c, average_price = 0, log_count = 0\<rparr>
          else
            (let total_price = sum_list (map price results);
                 average_price = total_price / real (length results)
             in Inr \<lparr>average_coin = c, average_price = average_price,
                      log_count = length results\<rparr>))"

text \<open>
  \<^verbatim>\<open>
  async def get_average_last_10(coin: str):
      if coin.lower() == "bitcoin":
          db = shard1_db
      elif coin.lower() == "ethereum":
          db = shard2_db
      else:
          raise HTTPException(status_code=404, detail="Moeda nao suportada para logs.")
      ...
  \<close>
  Here \<^verbatim>\<open>coin.lower()\<close> is only compared with two ASCII literals, and passed on when it
  is one of them. For that \<open>lower\<close> is exact on every string: the lower case of a
  character outside ASCII has a character outside ASCII, or is the letter k (for the
  Kelvin sign), which is in neither literal; and \<open>lower\<close> keeps the bytes of a character
  outside ASCII, which are in neither literal.
\<close>

definition get_average_last_10 :: "state \<Rightarrow> string \<Rightarrow> exn + average" where
  "get_average_last_10 s c =
     (if lower c = ''bitcoin'' then average_of_last_10 (shard1_db s) c
      else if lower c = ''ethereum'' then average_of_last_10 (shard2_db s) c
      else Inl (HTTPException 404 (''Moeda n'' @ a_tilde @ ''o suportada para logs.'')))"

section \<open>Aggregator\<close>

text \<open>A decoded JSON body. An object is the list of its items; a key occurs once.\<close>

datatype json =
    JNull
  | JBool bool
  | JNumber real
  | JString string
  | JArray "json list"
  | JObject "(string \<times> json) list"

text \<open>
  \<^verbatim>\<open>
  async def fetch_current_average_price(client, coin):
      try:
          response = await client.get(f"{QUOTE_SERVICE_URL}/media_ultimos_10_logs/{coin}")
          response.raise_for_status()
          return response.json()
      except httpx.RequestError as e:
          return {"error": f"Nao foi possivel obter a media para {coin}"}
  \<close>
  \<^verbatim>\<open>httpx.HTTPStatusError\<close> is not a \<^verbatim>\<open>httpx.RequestError\<close>, and neither is the error
  of a body that does not decode: both leave the function.
\<close>

definition fetch_current_average_price :: "json http \<Rightarrow> string \<Rightarrow> exn + json" where
  "fetch_current_average_price r c =
     (case r of
        RequestFails \<Rightarrow>
          Inr (JObject [(''error'',
                 JString (''N'' @ a_tilde @ ''o foi poss'' @ i_acute @ ''vel obter a m''
                          @ e_acute @ ''dia para '' @ c))])
      | Responds is_success body \<Rightarrow>
          if \<not> is_success then Inl HTTPStatusError
          else (case body of None \<Rightarrow> Inl JSONDecodeError | Some j \<Rightarrow> Inr j))"

text \<open>
  An item of a log slice: \<^verbatim>\<open>{"coin": ..., "price": ..., "timestamp": ...}\<close>, where the
  timestamp stands for its \<^verbatim>\<open>isoformat()\<close>, or \<^verbatim>\<open>{"error": ...}\<close>.
\<close>

datatype log_item = LogItem string real instant | LogError string

text \<open>
  \<^verbatim>\<open>
  async def fetch_last_logs_from_shard(db, coin, limit = 5):
      query = "SELECT coin, price, timestamp FROM quote_logs WHERE coin = :coin
               ORDER BY timestamp DESC LIMIT :limit"
      try:
          results = await db.fetch_all(query=query, values={"coin": coin, "limit": limit})
          return [{"coin": row["coin"], "price": row["price"],
                   "timestamp": row["timestamp"].isoformat()} for row in results]
      except Exception as e:
          return [{"error": f"Nao foi possivel obter logs para {coin}"}]
  \<close>
\<close>

definition log_item_of :: "log_entry \<Rightarrow> log_item" where
  "log_item_of row = LogItem (coin row) (price row) (timestamp row)"

definition fetch_last_logs_from_shard :: "database \<Rightarrow> string \<Rightarrow> nat \<Rightarrow> exn + log_item list" where
  "fetch_last_logs_from_shard db c limit =
     (case fetch_all db c limit of
        Inr results \<Rightarrow> Inr (map log_item_of results)
      | Inl e \<Rightarrow>
          Inr [LogError (''N'' @ a_tilde @ ''o foi poss'' @ i_acute @ ''vel obter logs para '' @ c)])"

text \<open>
  \<^verbatim>\<open>
  def get_avg(result):
      if isinstance(result, Exception) or not isinstance(result, dict):
          return "Erro"
      return result.get("average_price", "Chave 'average_price' nao encontrada")
  \<close>
  \<open>result\<close> is an entry of \<^verbatim>\<open>asyncio.gather(*tasks, return_exceptions=True)\<close>: the value
  the task returned, or the exception it raised, as a value.
\<close>

definition key_not_found :: string where
  "key_not_found = ''Chave 'average_price' n'' @ a_tilde @ ''o encontrada''"

fun get_avg :: "exn + json \<Rightarrow> json" where
  "get_avg (Inl e) = JString ''Erro''"
| "get_avg (Inr (JObject items)) =
     (case map_of items ''average_price'' of Some v \<Rightarrow> v | None \<Rightarrow> JString key_not_found)"
| "get_avg (Inr j) = JString ''Erro''"

text \<open>
  A log field of the report: the list a task returned, or the string \<^verbatim>\<open>"Erro"\<close>
  (\<^verbatim>\<open>logs_btc if not isinstance(logs_btc, Exception) else "Erro"\<close>).
\<close>

datatype logs_field = Logs "log_item list" | LogsErro

fun get_logs :: "exn + log_item list \<Rightarrow> logs_field" where
  "get_logs (Inl e) = LogsErro"
| "get_logs (Inr logs) = Logs logs"

text \<open>
  \<^verbatim>\<open>{"media_precos": {"bitcoin": ..., "ethereum": ...},
     "ultimos_logs": {"bitcoin": ..., "ethereum": ...}}\<close>
\<close>

record report =
  media_precos_bitcoin :: json
  media_precos_ethereum :: json
  ultimos_logs_bitcoin :: logs_field
  ultimos_logs_ethereum :: logs_field

text \<open>The composition of the response from the four gathered results.\<close>

definition response_data ::
    "exn + json \<Rightarrow> exn + json \<Rightarrow> exn + log_item list \<Rightarrow> exn + log_item list \<Rightarrow> report" where
  "response_data avg_btc avg_eth logs_btc logs_eth =
     \<lparr>media_precos_bitcoin = get_avg avg_btc,
      media_precos_ethereum = get_avg avg_eth,
      ultimos_logs_bitcoin = get_logs logs_btc,
      ultimos_logs_ethereum = get_logs logs_eth\<rparr>"

text \<open>
  \<^verbatim>\<open>get_full_report\<close>: the four tasks, gathered with \<^verbatim>\<open>return_exceptions=True\<close> (so
  that the gather itself raises nothing and keeps every outcome), then the composition.
  \<open>get_btc\<close> and \<open>get_eth\<close> are the outcomes of the two GETs to the quote service; the
  two shards are the aggregator's own connections.
\<close>

definition get_full_report ::
    "json http \<Rightarrow> json http \<Rightarrow> database \<Rightarrow> database \<Rightarrow> exn + report" where
  "get_full_report get_btc get_eth shard1 shard2 =
     (let avg_btc = fetch_current_average_price get_btc ''bitcoin'';
          avg_eth = fetch_current_average_price get_eth ''ethereum'';
          logs_btc = fetch_last_logs_from_shard shard1 ''bitcoin'' 5;
          logs_eth = fetch_last_logs_from_shard shard2 ''ethereum'' 5
      in Inr (response_data avg_btc avg_eth logs_btc logs_eth))"

section \<open>Notions used to state the properties\<close>

text \<open>
  The shard after the \<^verbatim>\<open>try\<close> block of \<^verbatim>\<open>store_log\<close>: the row is appended, or the
  exception of \<^verbatim>\<open>db.execute\<close> is caught and the shard is as before.
\<close>

definition inserted :: "database \<Rightarrow> log_entry \<Rightarrow> database" where
  "inserted db row = (case execute db row of Inr db' \<Rightarrow> db' | Inl e \<Rightarrow> db)"

text \<open>The rows of a shard for a symbol, in insertion order.\<close>

definition entries :: "database \<Rightarrow> string \<Rightarrow> log_entry list" where
  "entries db c = filter (\<lambda>r. coin r = c) (quote_logs db)"

text \<open>Rows in non-increasing order of their timestamps.\<close>

definition newest_first :: "log_entry list \<Rightarrow> bool" where
  "newest_first rows = sorted_wrt (\<lambda>a b. timestamp b \<le> timestamp a) rows"



definition not_supported :: exn where
  "not_supported = HTTPException 404 (''Moeda n'' @ a_tilde @ ''o suportada para logs.'')"

text \<open>
  What a price-summary task delivered: the value under \<^verbatim>\<open>average_price\<close> of the object it
  returned, and nothing when it raised or returned anything else (the error payload
  \<^verbatim>\<open>{"error": ...}\<close> among them).
\<close>

fun summary_value :: "exn + json \<Rightarrow> json option" where
  "summary_value (Inr (JObject items)) = map_of items ''average_price''"
| "summary_value r = None"

text \<open>The two markers of a price-summary field.\<close>

definition is_marker :: "json \<Rightarrow> bool" where
  "is_marker j = (j = JString ''Erro'' \<or> j = JString key_not_found)"

text \<open>What \<^verbatim>\<open>fetch_last_logs_from_shard\<close> returns when the query raised.\<close>

definition logs_unavailable :: "string \<Rightarrow> log_item list" where
  "logs_unavailable c =
     [LogError (''N'' @ a_tilde @ ''o foi poss'' @ i_acute @ ''vel obter logs para '' @ c)]"

subsection \<open>Concrete inputs\<close>

text \<open>An upstream that answers every attempt the same way.\<close>

definition always :: "quote http \<Rightarrow> nat \<Rightarrow> quote http" where
  "always r n = r"

definition refresh_env :: "quote http \<Rightarrow> cycle_env" where
  "refresh_env r = \<lparr>answers = always r, utcnow1 = 1, utcnow2 = 2\<rparr>"

text \<open>A shard with an empty table, and the service as it starts.\<close>

definition empty_shard :: database where
  "empty_shard = \<lparr>online = True, quote_logs = [], scan = id\<rparr>"

definition fresh_state :: state where
  "fresh_state = \<lparr>last_known_quote = initial_quote,
                   redis_pool = \<lparr>reachable = True, precos = []\<rparr>,
                   shard1_db = empty_shard, shard2_db = empty_shard\<rparr>"

text \<open>The prices the upstream of the repository starts from, and a quote of other symbols.\<close>

definition market :: quote where
  "market = [''bitcoin'' \<mapsto> 50000, ''ethereum'' \<mapsto> 3000]"

definition partial_quote :: quote where
  "partial_quote = [''bitcoin'' \<mapsto> 100, ''dogecoin'' \<mapsto> 5]"

text \<open>
  The bitcoin shard after the inserts of \<^verbatim>\<open>(bitcoin, 100.0, t1)\<close> and
  \<^verbatim>\<open>(bitcoin, 200.0, t2)\<close> with \<open>t1 < t2\<close>.
\<close>

definition two_logs :: database where
  "two_logs = empty_shard\<lparr>quote_logs :=
     [\<lparr>coin = ''bitcoin'', price = 100, timestamp = 1\<rparr>,
      \<lparr>coin = ''bitcoin'', price = 200, timestamp = 2\<rparr>]\<rparr>"

text \<open>A shard with two rows of one timestamp, read by the engine in the order \<open>f\<close>.\<close>

definition tied_shard :: "(log_entry list \<Rightarrow> log_entry list) \<Rightarrow> database" where
  "tied_shard f = \<lparr>online = True,
                   quote_logs = [\<lparr>coin = ''bitcoin'', price = 100, timestamp = 5\<rparr>,
                                 \<lparr>coin = ''bitcoin'', price = 200, timestamp = 5\<rparr>],
                   scan = f\<rparr>"

text \<open>A body of \<^verbatim>\<open>GET /media_ultimos_10_logs/bitcoin\<close>.\<close>

definition summary_body :: "real \<Rightarrow> json" where
  "summary_body avg =
     JObject [(''coin'', JString ''bitcoin''), (''average_price'', JNumber avg),
              (''log_count'', JNumber 2)]"

section \<open>Properties of the fetch\<close>

lemma attempt_fails_retryably:
  "fails_retryably r \<Longrightarrow>
   \<exists>e. attempt r lkq = (Inl e, lkq) \<and> retry_if_exception_type e"
  by (cases r) (auto simp: attempt_def)

lemma retrying_step_failed:
  assumes "fails_retryably (upstream n)"
  shows "retrying n upstream lkq =
           (if stop_after_attempt n then (Inr lkq, lkq) else retrying (Suc n) upstream lkq)"
proof -
  from attempt_fails_retryably [OF assms, of lkq]
  obtain e where "attempt (upstream n) lkq = (Inl e, lkq)" "retry_if_exception_type e"
    by blast
  then show ?thesis
    by (subst retrying.simps) simp
qed

lemma retrying_success:
  "upstream n = Responds True (Some q) \<Longrightarrow> retrying n upstream lkq = (Inr q, q)"
  by (subst retrying.simps) (simp add: attempt_def)

lemma fetch_exhausted:
  assumes "fails_retryably (upstream 1)"
      and "fails_retryably (upstream 2)"
      and "fails_retryably (upstream 3)"
  shows "fetch_quote_from_external_service upstream lkq = (Inr lkq, lkq)"
proof -
  have "retrying 3 upstream lkq = (Inr lkq, lkq)"
    using retrying_step_failed [of upstream 3 lkq] assms(3)
    by (simp add: stop_after_attempt_def)
  moreover have "retrying 2 upstream lkq = retrying 3 upstream lkq"
    using retrying_step_failed [of upstream 2 lkq] assms(2)
    by (simp add: stop_after_attempt_def numeral_3_eq_3 numeral_2_eq_2)
  moreover have "retrying 1 upstream lkq = retrying 2 upstream lkq"
    using retrying_step_failed [of upstream 1 lkq] assms(1)
    by (simp add: stop_after_attempt_def numeral_2_eq_2)
  ultimately show ?thesis
    by (simp add: fetch_quote_from_external_service_def)
qed

text \<open>Whenever the call returns, what it returns is the cache as the call leaves it.\<close>

lemma retrying_returns_cache:
  "retrying n upstream lkq = (Inr q, lkq') \<Longrightarrow> q = lkq'"
proof (induction n upstream lkq rule: retrying.induct)
  case (1 n upstream lkq)
  show ?case
  proof (cases "attempt (upstream n) lkq")
    case (Pair res c)
    show ?thesis
    proof (cases res)
      case (Inr new_quote)
      with Pair have "c = new_quote"
        by (auto simp: attempt_def split: http.splits if_splits option.splits)
      with "1.prems" Pair Inr show ?thesis
        by (subst (asm) retrying.simps) auto
    next
      case (Inl e)
      from "1.prems" have "retrying (Suc n) upstream c = (Inr q, lkq')
          \<and> retry_if_exception_type e \<and> \<not> stop_after_attempt n \<or> q = lkq'"
        using Pair Inl by (subst (asm) retrying.simps) (auto split: if_splits)
      with "1.IH" Pair Inl show ?thesis
        by auto
    qed
  qed
qed

lemma fetch_returns_cache:
  "fetch_quote_from_external_service upstream lkq = (Inr q, lkq') \<Longrightarrow> q = lkq'"
  unfolding fetch_quote_from_external_service_def by (rule retrying_returns_cache)

lemma fetch_always_ok [simp]:
  "fetch_quote_from_external_service (always (Responds True (Some q))) lkq = (Inr q, q)"
  by (simp add: fetch_quote_from_external_service_def retrying_success always_def)

lemma fetch_always_malformed [simp]:
  "fetch_quote_from_external_service (always (Responds True None)) lkq = (Inl JSONDecodeError, lkq)"
  unfolding fetch_quote_from_external_service_def
  by (subst retrying.simps) (simp add: attempt_def always_def)

text \<open>
  C1. Whatever the cache holds, when all three attempts fail with a transport error or a
  non-2xx status, the call returns normally, its value is the cache as it was before the
  call, and the cache is unchanged.
\<close>

theorem fetch_exhausted_returns_cache:
  assumes "fails_retryably (upstream 1)"
      and "fails_retryably (upstream 2)"
      and "fails_retryably (upstream 3)"
  shows "fetch_quote_from_external_service upstream lkq = (Inr lkq, lkq)"
  using assms by (rule fetch_exhausted)

theorem fetch_exhausted_returns_cache_witness:
  "fetch_quote_from_external_service
     (\<lambda>n. if n = 2 then RequestFails else Responds False None) [''bitcoin'' \<mapsto> 50000]
   = (Inr [''bitcoin'' \<mapsto> 50000], [''bitcoin'' \<mapsto> 50000])"
  using fetch_exhausted_returns_cache
    [of "\<lambda>n. if n = 2 then RequestFails else Responds False None" "[''bitcoin'' \<mapsto> 50000]"]
  by simp

text \<open>
  C9. When an attempt of the call (the first, or a later one after attempts that failed
  with a transport error or a non-2xx status) gets the quote \<open>Q\<close>, the call returns
  \<open>Q\<close> and the cache is \<open>Q\<close>, as it came.
\<close>

theorem fetch_success_replaces_cache:
  assumes "k = 1 \<or> k = 2 \<or> k = 3"
      and "upstream k = Responds True (Some Q)"
      and "\<forall>j. 1 \<le> j \<and> j < k \<longrightarrow> fails_retryably (upstream j)"
  shows "fetch_quote_from_external_service upstream lkq = (Inr Q, Q)"
proof -
  have ok: "retrying k upstream lkq = (Inr Q, Q)"
    using assms(2) by (rule retrying_success)
  have step: "retrying j upstream lkq = retrying (Suc j) upstream lkq"
    if "1 \<le> j" "j < k" for j
  proof -
    from that assms(3) have "fails_retryably (upstream j)" by blast
    moreover from that assms(1) have "\<not> stop_after_attempt j"
      by (auto simp: stop_after_attempt_def)
    ultimately show ?thesis
      using retrying_step_failed [of upstream j lkq] by simp
  qed
  from assms(1) show ?thesis
  proof (elim disjE)
    assume "k = 1"
    with ok show ?thesis by (simp add: fetch_quote_from_external_service_def)
  next
    assume k: "k = 2"
    with step [of 1] ok show ?thesis
      by (simp add: fetch_quote_from_external_service_def numeral_2_eq_2)
  next
    assume k: "k = 3"
    with step [of 1] step [of 2] ok show ?thesis
      by (simp add: fetch_quote_from_external_service_def numeral_2_eq_2 numeral_3_eq_3)
  qed
qed

theorem fetch_success_replaces_cache_witness:
  "fetch_quote_from_external_service
     (\<lambda>n. if n = 2 then Responds True (Some [''bitcoin'' \<mapsto> 50000, ''ethereum'' \<mapsto> 3000])
          else RequestFails) initial_quote
   = (Inr [''bitcoin'' \<mapsto> 50000, ''ethereum'' \<mapsto> 3000],
      [''bitcoin'' \<mapsto> 50000, ''ethereum'' \<mapsto> 3000])"
  using fetch_success_replaces_cache
    [of 2 "\<lambda>n. if n = 2 then Responds True (Some [''bitcoin'' \<mapsto> 50000, ''ethereum'' \<mapsto> 3000])
          else RequestFails" "[''bitcoin'' \<mapsto> 50000, ''ethereum'' \<mapsto> 3000]" initial_quote]
  by simp

section \<open>Properties of the refresh loop\<close>

lemma store_log_bitcoin:
  "store_log ''bitcoin'' p now s =
     (None, s\<lparr>shard1_db := inserted (shard1_db s) \<lparr>coin = ''bitcoin'', price = p, timestamp = now\<rparr>\<rparr>)"
  by (simp add: store_log_def execute_def inserted_def)

lemma store_log_ethereum:
  "store_log ''ethereum'' p now s =
     (None, s\<lparr>shard2_db := inserted (shard2_db s) \<lparr>coin = ''ethereum'', price = p, timestamp = now\<rparr>\<rparr>)"
  by (simp add: store_log_def execute_def inserted_def)

lemma store_log_other:
  "c \<noteq> ''bitcoin'' \<Longrightarrow> c \<noteq> ''ethereum'' \<Longrightarrow> store_log c p now s = (None, s)"
  by (simp add: store_log_def)

lemma all_zero_upd [simp]: "q k = None \<Longrightarrow> all_zero (q(k \<mapsto> v)) = (v = 0 \<and> all_zero q)"
  by (simp add: all_zero_def)

lemma all_zero_empty [simp]: "all_zero Map.empty"
  by (simp add: all_zero_def)

lemma cycle_skip:
  assumes "fetch_quote_from_external_service (answers env) (last_known_quote s) = (Inr q, lkq')"
      and "q = Map.empty \<or> all_zero q"
  shows "cycle env s = (None, s\<lparr>last_known_quote := q\<rparr>)"
proof -
  from assms(1) have "q = lkq'" by (rule fetch_returns_cache)
  with assms show ?thesis by (auto simp: cycle_def)
qed

lemma cycle_publish_fails:
  assumes "fetch_quote_from_external_service (answers env) (last_known_quote s) = (Inr q, lkq')"
      and "\<not> (q = Map.empty \<or> all_zero q)"
      and "\<not> reachable (redis_pool s)"
  shows "cycle env s = (Some RedisConnectionError, s\<lparr>last_known_quote := q\<rparr>)"
proof -
  from assms(1) have "q = lkq'" by (rule fetch_returns_cache)
  with assms show ?thesis by (simp add: cycle_def publish_def)
qed

lemma cycle_runs:
  assumes "fetch_quote_from_external_service (answers env) (last_known_quote s) = (Inr q, lkq')"
      and "\<not> (q = Map.empty \<or> all_zero q)"
      and "reachable (redis_pool s)"
  shows "cycle env s =
    (None, s\<lparr>last_known_quote := q,
             redis_pool := (redis_pool s)\<lparr>precos := precos (redis_pool s) @ [q]\<rparr>,
             shard1_db := inserted (shard1_db s)
               \<lparr>coin = ''bitcoin'', price = dict_get q ''bitcoin'' 0, timestamp = utcnow1 env\<rparr>,
             shard2_db := inserted (shard2_db s)
               \<lparr>coin = ''ethereum'', price = dict_get q ''ethereum'' 0, timestamp = utcnow2 env\<rparr>\<rparr>)"
proof -
  from assms(1) have "q = lkq'" by (rule fetch_returns_cache)
  with assms show ?thesis
    by (simp add: cycle_def publish_def store_log_bitcoin store_log_ethereum)
qed

lemma cycle_fetch_raises:
  "fetch_quote_from_external_service (answers env) (last_known_quote s) = (Inl e, lkq')
   \<Longrightarrow> cycle env s = (Some e, s\<lparr>last_known_quote := lkq'\<rparr>)"
  by (simp add: cycle_def)

lemma market_not_skipped: "\<not> (market = Map.empty \<or> all_zero market)"
proof -
  have "market \<noteq> Map.empty" by (simp add: market_def)
  moreover have "\<not> all_zero market" by (simp add: market_def)
  ultimately show ?thesis by simp
qed

text \<open>
  C5, as the code has it. Let the fetch of a cycle return the quote \<open>q\<close>. The cycle skips
  the publish and the two inserts (it ends normally, and the broker and both shards are
  as they were) exactly when \<open>q\<close> is empty or every price in \<open>q\<close> is zero. In
  particular, when the upstream fails all three attempts and the cache still holds its
  seed, the fetch returns the seed and the cycle publishes and persists nothing.
\<close>

theorem cycle_skips_iff_empty_or_all_zero:
  "(fetch_quote_from_external_service (answers env) (last_known_quote s) = (Inr q, lkq') \<longrightarrow>
      ((q = Map.empty \<or> all_zero q) \<longleftrightarrow> cycle env s = (None, s\<lparr>last_known_quote := q\<rparr>)))
   \<and> (fails_retryably (answers env 1) \<and> fails_retryably (answers env 2)
        \<and> fails_retryably (answers env 3) \<and> last_known_quote s = initial_quote \<longrightarrow>
      fetch_quote_from_external_service (answers env) (last_known_quote s)
        = (Inr initial_quote, initial_quote)
      \<and> cycle env s = (None, s))"
proof (intro conjI impI)
  assume f: "fetch_quote_from_external_service (answers env) (last_known_quote s) = (Inr q, lkq')"
  show "(q = Map.empty \<or> all_zero q) \<longleftrightarrow> cycle env s = (None, s\<lparr>last_known_quote := q\<rparr>)"
  proof
    assume "q = Map.empty \<or> all_zero q"
    with f show "cycle env s = (None, s\<lparr>last_known_quote := q\<rparr>)" by (rule cycle_skip)
  next
    assume c: "cycle env s = (None, s\<lparr>last_known_quote := q\<rparr>)"
    show "q = Map.empty \<or> all_zero q"
    proof (rule ccontr)
      assume n: "\<not> (q = Map.empty \<or> all_zero q)"
      show False
      proof (cases "reachable (redis_pool s)")
        case True
        from cycle_runs [OF f n True] c
        have "s\<lparr>last_known_quote := q,
                redis_pool := (redis_pool s)\<lparr>precos := precos (redis_pool s) @ [q]\<rparr>,
                shard1_db := inserted (shard1_db s)
                  \<lparr>coin = ''bitcoin'', price = dict_get q ''bitcoin'' 0, timestamp = utcnow1 env\<rparr>,
                shard2_db := inserted (shard2_db s)
                  \<lparr>coin = ''ethereum'', price = dict_get q ''ethereum'' 0, timestamp = utcnow2 env\<rparr>\<rparr>
              = s\<lparr>last_known_quote := q\<rparr>"
          by simp
        from arg_cong [OF this, of "\<lambda>s. precos (redis_pool s)"]
        have "precos (redis_pool s) @ [q] = precos (redis_pool s)"
          by simp
        then show False by simp
      next
        case False
        from cycle_publish_fails [OF f n False] c show False by simp
      qed
    qed
  qed
next
  assume a: "fails_retryably (answers env 1) \<and> fails_retryably (answers env 2)
        \<and> fails_retryably (answers env 3) \<and> last_known_quote s = initial_quote"
  then have f: "fetch_quote_from_external_service (answers env) (last_known_quote s)
        = (Inr initial_quote, initial_quote)"
    using fetch_exhausted [of "answers env" "last_known_quote s"] by simp
  then show "fetch_quote_from_external_service (answers env) (last_known_quote s)
        = (Inr initial_quote, initial_quote)" .
  have "all_zero initial_quote" by (simp add: initial_quote_def)
  with cycle_skip [OF f] a show "cycle env s = (None, s)" by simp
qed

theorem cycle_skips_iff_empty_or_all_zero_witness:
  "cycle (refresh_env RequestFails) fresh_state = (None, fresh_state)
   \<and> fetch_quote_from_external_service (always RequestFails) initial_quote
       = (Inr initial_quote, initial_quote)
   \<and> cycle (refresh_env (Responds True (Some market))) fresh_state
       \<noteq> (None, fresh_state\<lparr>last_known_quote := market\<rparr>)"
  using cycle_skips_iff_empty_or_all_zero
          [of "refresh_env RequestFails" fresh_state initial_quote initial_quote]
        cycle_skips_iff_empty_or_all_zero
          [of "refresh_env (Responds True (Some market))" fresh_state market market]
        market_not_skipped
  by (simp add: refresh_env_def always_def fresh_state_def)

text \<open>
  The claim C5 names one all-zero quote, the seed. The test of the code is on the values
  alone: the quote \<^verbatim>\<open>{"bitcoin": 0.0}\<close> is not empty and is not the seed, and the cycle
  that fetches it is skipped.
\<close>

theorem cycle_skips_all_zero_counterexample:
  "fetch_quote_from_external_service (always (Responds True (Some [''bitcoin'' \<mapsto> 0])))
       initial_quote = (Inr [''bitcoin'' \<mapsto> 0], [''bitcoin'' \<mapsto> 0])
   \<and> [''bitcoin'' \<mapsto> 0] \<noteq> (Map.empty :: quote)
   \<and> [''bitcoin'' \<mapsto> 0] \<noteq> initial_quote
   \<and> cycle (refresh_env (Responds True (Some [''bitcoin'' \<mapsto> 0]))) fresh_state
       = (None, fresh_state\<lparr>last_known_quote := [''bitcoin'' \<mapsto> 0]\<rparr>)"
proof -
  have "initial_quote ''ethereum'' \<noteq> [''bitcoin'' \<mapsto> 0::real] ''ethereum''"
    by (simp add: initial_quote_def)
  then have "[''bitcoin'' \<mapsto> 0] \<noteq> initial_quote" by metis
  moreover have "cycle (refresh_env (Responds True (Some [''bitcoin'' \<mapsto> 0]))) fresh_state
       = (None, fresh_state\<lparr>last_known_quote := [''bitcoin'' \<mapsto> 0]\<rparr>)"
    by (rule cycle_skip [where lkq' = "[''bitcoin'' \<mapsto> 0]"])
       (simp_all add: refresh_env_def fresh_state_def)
  ultimately show ?thesis by simp
qed

text \<open>
  C6, as the code has it. A cycle that is not skipped, and whose publish succeeds, puts
  \<open>q\<close> on the channel and then calls \<^verbatim>\<open>store_log\<close> once for \<^verbatim>\<open>"bitcoin"\<close> and once for
  \<^verbatim>\<open>"ethereum"\<close>, with the price \<open>q\<close> has for the symbol, or 0.0 when \<open>q\<close> does not
  have it. Each shard gets its row or, when its insert fails, stays as it was, whatever
  happens to the other.
\<close>

theorem cycle_publishes_then_persists:
  assumes "fetch_quote_from_external_service (answers env) (last_known_quote s) = (Inr q, lkq')"
      and "\<not> (q = Map.empty \<or> all_zero q)"
      and "reachable (redis_pool s)"
  shows "cycle env s =
    (None, s\<lparr>last_known_quote := q,
             redis_pool := (redis_pool s)\<lparr>precos := precos (redis_pool s) @ [q]\<rparr>,
             shard1_db := inserted (shard1_db s)
               \<lparr>coin = ''bitcoin'', price = dict_get q ''bitcoin'' 0, timestamp = utcnow1 env\<rparr>,
             shard2_db := inserted (shard2_db s)
               \<lparr>coin = ''ethereum'', price = dict_get q ''ethereum'' 0, timestamp = utcnow2 env\<rparr>\<rparr>)"
  using assms by (rule cycle_runs)

theorem cycle_publishes_then_persists_witness:
  "cycle (refresh_env (Responds True (Some market)))
         (fresh_state\<lparr>shard1_db := empty_shard\<lparr>online := False\<rparr>\<rparr>)
   = (None, fresh_state
        \<lparr>last_known_quote := market,
         redis_pool := \<lparr>reachable = True, precos = [market]\<rparr>,
         shard1_db := empty_shard\<lparr>online := False\<rparr>,
         shard2_db := empty_shard
           \<lparr>quote_logs := [\<lparr>coin = ''ethereum'', price = 3000, timestamp = 2\<rparr>]\<rparr>\<rparr>)"
  using cycle_publishes_then_persists
          [of "refresh_env (Responds True (Some market))"
              "fresh_state\<lparr>shard1_db := empty_shard\<lparr>online := False\<rparr>\<rparr>" market market]
        market_not_skipped
  by (simp add: refresh_env_def fresh_state_def inserted_def execute_def empty_shard_def
                dict_get_def market_def)

text \<open>
  The claim C6 has one insert for each symbol present in the quote. For the quote
  \<^verbatim>\<open>{"bitcoin": 100.0, "dogecoin": 5.0}\<close> the cycle inserts a row for \<^verbatim>\<open>ethereum\<close>, which
  the quote does not have, at price 0.0, and no row for \<^verbatim>\<open>dogecoin\<close>, which it has.
\<close>

theorem cycle_persists_fixed_symbols_counterexample:
  "partial_quote ''ethereum'' = None
   \<and> partial_quote ''dogecoin'' = Some 5
   \<and> cycle (refresh_env (Responds True (Some partial_quote))) fresh_state
     = (None, fresh_state
          \<lparr>last_known_quote := partial_quote,
           redis_pool := \<lparr>reachable = True, precos = [partial_quote]\<rparr>,
           shard1_db := empty_shard
             \<lparr>quote_logs := [\<lparr>coin = ''bitcoin'', price = 100, timestamp = 1\<rparr>]\<rparr>,
           shard2_db := empty_shard
             \<lparr>quote_logs := [\<lparr>coin = ''ethereum'', price = 0, timestamp = 2\<rparr>]\<rparr>\<rparr>)"
proof -
  have "partial_quote \<noteq> Map.empty" by (simp add: partial_quote_def)
  moreover have "\<not> all_zero partial_quote" by (simp add: partial_quote_def)
  ultimately have n: "\<not> (partial_quote = Map.empty \<or> all_zero partial_quote)" by simp
  have "cycle (refresh_env (Responds True (Some partial_quote))) fresh_state
     = (None, fresh_state
          \<lparr>last_known_quote := partial_quote,
           redis_pool := \<lparr>reachable = True, precos = [partial_quote]\<rparr>,
           shard1_db := empty_shard
             \<lparr>quote_logs := [\<lparr>coin = ''bitcoin'', price = 100, timestamp = 1\<rparr>]\<rparr>,
           shard2_db := empty_shard
             \<lparr>quote_logs := [\<lparr>coin = ''ethereum'', price = 0, timestamp = 2\<rparr>]\<rparr>\<rparr>)"
    using cycle_runs [of "refresh_env (Responds True (Some partial_quote))" fresh_state
                         partial_quote partial_quote] n
    by (simp add: refresh_env_def fresh_state_def inserted_def execute_def empty_shard_def
                  dict_get_def partial_quote_def)
  then show ?thesis by (simp add: partial_quote_def)
qed

text \<open>
  C3 fails on the code. With the broker out of reach, the first cycle raises at the
  publish and the loop ends: the second cycle, which would have been served, never runs.
  The same holds for a first cycle whose upstream answers 200 with a body that is not
  JSON. Only the failure of an insert is caught (in \<^verbatim>\<open>store_log\<close>).
\<close>

theorem refresh_loop_ends_on_publish_failure:
  "background_quote_updater
     [refresh_env (Responds True (Some market)), refresh_env (Responds True (Some market))]
     (fresh_state\<lparr>redis_pool := \<lparr>reachable = False, precos = []\<rparr>\<rparr>)
   = (Some RedisConnectionError,
      fresh_state\<lparr>last_known_quote := market,
                  redis_pool := \<lparr>reachable = False, precos = []\<rparr>\<rparr>)
   \<and> background_quote_updater
     [refresh_env (Responds True None), refresh_env (Responds True (Some market))]
     fresh_state
   = (Some JSONDecodeError, fresh_state)"
proof -
  have "cycle (refresh_env (Responds True (Some market)))
          (fresh_state\<lparr>redis_pool := \<lparr>reachable = False, precos = []\<rparr>\<rparr>)
        = (Some RedisConnectionError,
           fresh_state\<lparr>last_known_quote := market,
                  redis_pool := \<lparr>reachable = False, precos = []\<rparr>\<rparr>)"
    using cycle_publish_fails [of "refresh_env (Responds True (Some market))"
            "fresh_state\<lparr>redis_pool := \<lparr>reachable = False, precos = []\<rparr>\<rparr>" market market]
          market_not_skipped
    by (simp add: refresh_env_def fresh_state_def)
  moreover have "cycle (refresh_env (Responds True None)) fresh_state
        = (Some JSONDecodeError, fresh_state)"
    using cycle_fetch_raises [of "refresh_env (Responds True None)" fresh_state
            JSONDecodeError initial_quote]
    by (simp add: refresh_env_def fresh_state_def)
  ultimately show ?thesis by simp
qed

text \<open>
  The failure of an insert, for contrast, is caught in \<^verbatim>\<open>store_log\<close>: with both shards
  out of reach the loop goes through its cycles, and publishes in each.
\<close>

lemma refresh_loop_survives_insert_failure:
  "background_quote_updater
     [refresh_env (Responds True (Some market)), refresh_env (Responds True (Some market))]
     (fresh_state\<lparr>shard1_db := empty_shard\<lparr>online := False\<rparr>,
                  shard2_db := empty_shard\<lparr>online := False\<rparr>\<rparr>)
   = (None,
      fresh_state\<lparr>last_known_quote := market,
                  redis_pool := \<lparr>reachable = True, precos = [market, market]\<rparr>,
                  shard1_db := empty_shard\<lparr>online := False\<rparr>,
                  shard2_db := empty_shard\<lparr>online := False\<rparr>\<rparr>)"
proof -
  have "cycle (refresh_env (Responds True (Some market))) s
        = (None, s\<lparr>last_known_quote := market,
                    redis_pool := \<lparr>reachable = True, precos = precos (redis_pool s) @ [market]\<rparr>\<rparr>)"
    if "reachable (redis_pool s)" "\<not> online (shard1_db s)" "\<not> online (shard2_db s)" for s
    using cycle_runs [of "refresh_env (Responds True (Some market))" s market market]
          market_not_skipped that
    by (simp add: refresh_env_def inserted_def execute_def)
  then show ?thesis
    by (simp add: fresh_state_def empty_shard_def)
qed

section \<open>Properties of the read endpoints and of the routing\<close>



lemma lower_bitcoin: "lower ''bitcoin'' = ''bitcoin''"
  by code_simp

lemma lower_ethereum: "lower ''ethereum'' = ''ethereum''"
  by code_simp

lemma lower_Bitcoin: "lower ''Bitcoin'' = ''bitcoin''"
  by code_simp

lemma lower_dogecoin: "lower ''dogecoin'' = ''dogecoin''"
  by code_simp


text \<open>
  C4, as the code has it. \<^verbatim>\<open>get_average_last_10\<close> rejects with 404 every symbol whose
  lower-case form is neither \<^verbatim>\<open>bitcoin\<close> nor \<^verbatim>\<open>ethereum\<close>. \<^verbatim>\<open>store_log\<close> rejects nothing:
  for a symbol other than these two it returns normally and stores nothing. For the two
  known symbols the shard is fixed: \<^verbatim>\<open>bitcoin\<close> is written to and read from shard 1 and
  \<^verbatim>\<open>ethereum\<close> shard 2, on every call.
\<close>

theorem shard_routing:
  "(lower c \<noteq> ''bitcoin'' \<and> lower c \<noteq> ''ethereum'' \<longrightarrow>
      get_average_last_10 s c = Inl not_supported)
   \<and> (c \<noteq> ''bitcoin'' \<and> c \<noteq> ''ethereum'' \<longrightarrow> store_log c p now s = (None, s))
   \<and> store_log ''bitcoin'' p now s =
       (None, s\<lparr>shard1_db := inserted (shard1_db s)
                   \<lparr>coin = ''bitcoin'', price = p, timestamp = now\<rparr>\<rparr>)
   \<and> store_log ''ethereum'' p now s =
       (None, s\<lparr>shard2_db := inserted (shard2_db s)
                   \<lparr>coin = ''ethereum'', price = p, timestamp = now\<rparr>\<rparr>)
   \<and> (lower c = ''bitcoin'' \<longrightarrow>
        get_average_last_10 s c = average_of_last_10 (shard1_db s) c)
   \<and> (lower c = ''ethereum'' \<longrightarrow>
        get_average_last_10 s c = average_of_last_10 (shard2_db s) c)"
  by (simp add: get_average_last_10_def not_supported_def store_log_bitcoin store_log_ethereum
                store_log_other)

theorem shard_routing_witness:
  "get_average_last_10 fresh_state ''dogecoin'' = Inl not_supported
   \<and> store_log ''bitcoin'' 100 7 fresh_state =
       (None, fresh_state\<lparr>shard1_db := empty_shard
          \<lparr>quote_logs := [\<lparr>coin = ''bitcoin'', price = 100, timestamp = 7\<rparr>]\<rparr>\<rparr>)
   \<and> get_average_last_10 fresh_state ''Bitcoin''
       = average_of_last_10 (shard1_db fresh_state) ''Bitcoin''"
  using shard_routing [of "''dogecoin''" fresh_state 100 7]
        shard_routing [of "''Bitcoin''" fresh_state 100 7]
  by (simp add: lower_dogecoin lower_Bitcoin inserted_def execute_def fresh_state_def
                empty_shard_def)

text \<open>
  The claim C4 has every call site reject an unknown symbol. \<^verbatim>\<open>store_log("dogecoin", 5.0)\<close>
  returns normally and leaves the state as it was.
\<close>

theorem store_log_drops_unknown_counterexample:
  "store_log ''dogecoin'' 5 7 fresh_state = (None, fresh_state)"
  by (simp add: store_log_def)








section \<open>Properties of the queries\<close>

lemma sorted_desc_sort_key:
  "sorted_wrt (\<lambda>a b. timestamp b \<le> timestamp a) (sort_key (\<lambda>r. - timestamp r) rows)"
proof -
  have "sorted (map (\<lambda>r. - timestamp r) (sort_key (\<lambda>r. - timestamp r) rows))"
    by (rule sorted_sort_key)
  then show ?thesis
    by (simp add: sorted_map)
qed

lemma newest_first_select_recent: "newest_first (select_recent db c k)"
  unfolding newest_first_def select_recent_def
  by (rule sorted_wrt_take) (rule sorted_desc_sort_key)

lemma length_select_recent: "length (select_recent db c k) \<le> k"
  by (simp add: select_recent_def)

lemma mset_ordered:
  "lawful db \<Longrightarrow>
   mset (sort_key (\<lambda>r. - timestamp r) (scan db (filter (\<lambda>r. coin r = c) (quote_logs db))))
     = mset (entries db c)"
  by (simp add: lawful_def entries_def)

lemma length_select_recent_min:
  assumes "lawful db"
  shows "length (select_recent db c k) = min k (length (entries db c))"
proof -
  from mset_ordered [OF assms, of c]
  have "length (sort_key (\<lambda>r. - timestamp r) (scan db (filter (\<lambda>r. coin r = c) (quote_logs db))))
          = length (entries db c)"
    by (rule mset_eq_length)
  then show ?thesis
    by (simp add: select_recent_def min.commute)
qed

lemma set_select_recent:
  assumes "lawful db"
  shows "set (select_recent db c k) \<subseteq> set (entries db c)"
proof -
  from mset_ordered [OF assms, of c]
  have "set (sort_key (\<lambda>r. - timestamp r) (scan db (filter (\<lambda>r. coin r = c) (quote_logs db))))
          = set (entries db c)"
    by (rule mset_eq_setD)
  then show ?thesis
    unfolding select_recent_def using set_take_subset by fastforce
qed

lemma select_recent_all:
  assumes "lawful db" and "length (entries db c) \<le> k"
  shows "mset (select_recent db c k) = mset (entries db c)"
proof -
  from mset_ordered [OF assms(1), of c]
  have m: "mset (sort_key (\<lambda>r. - timestamp r) (scan db (filter (\<lambda>r. coin r = c) (quote_logs db))))
          = mset (entries db c)" .
  then have "length (sort_key (\<lambda>r. - timestamp r) (scan db (filter (\<lambda>r. coin r = c) (quote_logs db))))
          = length (entries db c)"
    by (rule mset_eq_length)
  with assms(2) m show ?thesis
    by (simp add: select_recent_def)
qed

lemma select_recent_none:
  assumes "lawful db" and "entries db c = []"
  shows "select_recent db c k = []"
  using length_select_recent_min [OF assms(1), of c k] assms(2) by simp

lemma sum_prices_mset:
  "mset xs = mset ys \<Longrightarrow> sum_list (map price xs) = sum_list (map price ys)"
proof -
  assume "mset xs = mset ys"
  then have "mset (map price xs) = mset (map price ys)" by simp
  then have "sum_mset (mset (map price xs)) = sum_mset (mset (map price ys))" by (rule arg_cong)
  then show ?thesis by (simp only: sum_mset_sum_list)
qed

lemma average_of_last_10_all:
  assumes "online db" and "lawful db" and "length (entries db (lower c)) \<le> 10"
  shows "average_of_last_10 db c =
     Inr (if entries db (lower c) = []
          then \<lparr>average_coin = c, average_price = 0, log_count = 0\<rparr>
          else \<lparr>average_coin = c,
                average_price = sum_list (map price (entries db (lower c)))
                                / real (length (entries db (lower c))),
                log_count = length (entries db (lower c))\<rparr>)"
proof -
  from select_recent_all [OF assms(2,3)]
  have m: "mset (select_recent db (lower c) 10) = mset (entries db (lower c))" .
  then have l: "length (select_recent db (lower c) 10) = length (entries db (lower c))"
    by (rule mset_eq_length)
  from m have p: "sum_list (map price (select_recent db (lower c) 10))
                 = sum_list (map price (entries db (lower c)))"
    by (rule sum_prices_mset)
  from l have e: "select_recent db (lower c) 10 = [] \<longleftrightarrow> entries db (lower c) = []"
    by (metis length_0_conv)
  show ?thesis
    using assms(1) l p e by (simp add: average_of_last_10_def fetch_all_def Let_def)
qed

lemma lawful_id: "scan db = id \<Longrightarrow> lawful db"
  by (simp add: lawful_def)

lemma older_left_out:
  assumes "lawful db"
  shows "\<forall>x \<in> set (select_recent db c k).
           \<forall>y \<in># mset (entries db c) - mset (select_recent db c k). timestamp y \<le> timestamp x"
proof -
  define L where "L = sort_key (\<lambda>r. - timestamp r)
                        (scan db (filter (\<lambda>r. coin r = c) (quote_logs db)))"
  have m: "mset L = mset (entries db c)"
    unfolding L_def using assms by (rule mset_ordered)
  have s: "sorted_wrt (\<lambda>a b. timestamp b \<le> timestamp a) (take k L @ drop k L)"
    unfolding L_def append_take_drop_id by (rule sorted_desc_sort_key)
  have "mset (take k L) + mset (drop k L) = mset L"
    by (metis append_take_drop_id mset_append)
  then have "mset (entries db c) - mset (take k L) = mset (drop k L)"
    using m by (metis add_diff_cancel_left')
  moreover from s [unfolded sorted_wrt_append]
  have "\<forall>x \<in> set (take k L). \<forall>y \<in> set (drop k L). timestamp y \<le> timestamp x"
    by blast
  ultimately show ?thesis
    by (simp add: select_recent_def L_def)
qed

text \<open>
  The model of the query is complete: every arrangement of the rows of a symbol that
  descends in timestamp is what some engine answers.
\<close>

lemma every_arrangement_is_an_answer:
  assumes "mset full = mset (entries db c)" and "newest_first full"
  shows "\<exists>f. lawful (db\<lparr>scan := f\<rparr>) \<and> select_recent (db\<lparr>scan := f\<rparr>) c k = take k full"
proof -
  define f where "f = (\<lambda>rows :: log_entry list. if mset rows = mset full then full else rows)"
  have "lawful (db\<lparr>scan := f\<rparr>)"
    by (simp add: lawful_def f_def)
  moreover from assms(2) have "sorted (map (\<lambda>r. - timestamp r) full)"
    by (simp add: newest_first_def sorted_map)
  then have "sort_key (\<lambda>r. - timestamp r) full = full"
    by (rule sort_key_id_if_sorted)
  with assms(1) have "select_recent (db\<lparr>scan := f\<rparr>) c k = take k full"
    by (simp add: select_recent_def f_def entries_def)
  ultimately show ?thesis by blast
qed

text \<open>
  C7. For a symbol whose lower-case form is \<^verbatim>\<open>bitcoin\<close> or \<^verbatim>\<open>ethereum\<close>, with \<open>db\<close> its
  shard, answering: when the shard has no row for the symbol the endpoint returns average
  0 and count 0, and no error; when it has \<open>n\<close> rows with \<open>0 < n \<le> 10\<close> the endpoint
  returns the sum of the prices of these \<open>n\<close> rows divided by \<open>n\<close>, and the count \<open>n\<close>.
\<close>

theorem average_last_10_mean:
  assumes "lower c = ''bitcoin'' \<and> db = shard1_db s \<or> lower c = ''ethereum'' \<and> db = shard2_db s"
      and "online db" and "lawful db"
  shows "(entries db (lower c) = [] \<longrightarrow>
            get_average_last_10 s c
              = Inr \<lparr>average_coin = c, average_price = 0, log_count = 0\<rparr>)
       \<and> (entries db (lower c) \<noteq> [] \<and> length (entries db (lower c)) \<le> 10 \<longrightarrow>
            get_average_last_10 s c
              = Inr \<lparr>average_coin = c,
                      average_price = sum_list (map price (entries db (lower c)))
                                      / real (length (entries db (lower c))),
                      log_count = length (entries db (lower c))\<rparr>)"
proof -
  from assms(1) have "get_average_last_10 s c = average_of_last_10 db c"
    by (auto simp: get_average_last_10_def)
  then show ?thesis
    using average_of_last_10_all [OF assms(2,3), of c] by auto
qed

theorem average_last_10_mean_witness:
  "get_average_last_10 (fresh_state\<lparr>shard1_db := two_logs\<rparr>) ''bitcoin''
     = Inr \<lparr>average_coin = ''bitcoin'', average_price = 150, log_count = 2\<rparr>
   \<and> get_average_last_10 fresh_state ''ethereum''
     = Inr \<lparr>average_coin = ''ethereum'', average_price = 0, log_count = 0\<rparr>"
proof
  have "lawful two_logs" by (rule lawful_id) (simp add: two_logs_def empty_shard_def)
  with average_last_10_mean [of "''bitcoin''" two_logs "fresh_state\<lparr>shard1_db := two_logs\<rparr>"]
  show "get_average_last_10 (fresh_state\<lparr>shard1_db := two_logs\<rparr>) ''bitcoin''
     = Inr \<lparr>average_coin = ''bitcoin'', average_price = 150, log_count = 2\<rparr>"
    by (simp add: lower_bitcoin entries_def two_logs_def empty_shard_def)
next
  have "lawful empty_shard" by (rule lawful_id) (simp add: empty_shard_def)
  with average_last_10_mean [of "''ethereum''" empty_shard fresh_state]
  show "get_average_last_10 fresh_state ''ethereum''
     = Inr \<lparr>average_coin = ''ethereum'', average_price = 0, log_count = 0\<rparr>"
    by (simp add: lower_ethereum entries_def fresh_state_def empty_shard_def)
qed

text \<open>
  C8, as the code has it. When the shard answers, \<^verbatim>\<open>fetch_last_logs_from_shard\<close> returns
  the items of at most \<open>k\<close> rows of the symbol (\<open>k\<close> of them, or all when there are
  fewer), in non-increasing order of timestamp, no row left out being newer than a row
  returned; it returns the empty list when the shard has no row for the symbol. Nothing
  is said of the order among rows of one timestamp.
\<close>

theorem recent_at_most_k_newest_first:
  assumes "online db" and "lawful db"
  shows "fetch_last_logs_from_shard db c k = Inr (map log_item_of (select_recent db c k))
       \<and> length (select_recent db c k) \<le> k
       \<and> length (select_recent db c k) = min k (length (entries db c))
       \<and> newest_first (select_recent db c k)
       \<and> set (select_recent db c k) \<subseteq> set (entries db c)
       \<and> (\<forall>x \<in> set (select_recent db c k).
             \<forall>y \<in># mset (entries db c) - mset (select_recent db c k).
               timestamp y \<le> timestamp x)
       \<and> (entries db c = [] \<longrightarrow> fetch_last_logs_from_shard db c k = Inr [])"
proof (intro conjI impI)
  show f: "fetch_last_logs_from_shard db c k = Inr (map log_item_of (select_recent db c k))"
    using assms(1) by (simp add: fetch_last_logs_from_shard_def fetch_all_def)
  show "length (select_recent db c k) \<le> k"
    by (rule length_select_recent)
  show "length (select_recent db c k) = min k (length (entries db c))"
    using assms(2) by (rule length_select_recent_min)
  show "newest_first (select_recent db c k)"
    by (rule newest_first_select_recent)
  show "set (select_recent db c k) \<subseteq> set (entries db c)"
    using assms(2) by (rule set_select_recent)
  show "\<forall>x \<in> set (select_recent db c k).
             \<forall>y \<in># mset (entries db c) - mset (select_recent db c k).
               timestamp y \<le> timestamp x"
    using assms(2) by (rule older_left_out)
  assume "entries db c = []"
  with assms(2) have "select_recent db c k = []" by (rule select_recent_none)
  with f show "fetch_last_logs_from_shard db c k = Inr []" by simp
qed

theorem recent_at_most_k_newest_first_witness:
  "fetch_last_logs_from_shard two_logs ''bitcoin'' 1 = Inr [LogItem ''bitcoin'' 200 2]
   \<and> fetch_last_logs_from_shard two_logs ''ethereum'' 5 = Inr []"
proof
  have l: "lawful two_logs" by (rule lawful_id) (simp add: two_logs_def empty_shard_def)
  have o: "online two_logs" by (simp add: two_logs_def empty_shard_def)
  from recent_at_most_k_newest_first [OF o l, of "''bitcoin''" 1]
  show "fetch_last_logs_from_shard two_logs ''bitcoin'' 1 = Inr [LogItem ''bitcoin'' 200 2]"
    by (simp add: select_recent_def two_logs_def empty_shard_def log_item_of_def)
  from recent_at_most_k_newest_first [OF o l, of "''ethereum''" 5]
  show "fetch_last_logs_from_shard two_logs ''ethereum'' 5 = Inr []"
    by (simp add: entries_def two_logs_def empty_shard_def)
qed

text \<open>
  The claim C8 has ties broken by insertion order. The query orders by the timestamp and by
  nothing else, so the order of two rows of one timestamp is the engine's: the same
  table gives the two rows in insertion order with one engine and in the reverse order
  with another.
\<close>

theorem recent_ties_counterexample:
  "lawful (tied_shard id) \<and> lawful (tied_shard rev)
   \<and> quote_logs (tied_shard id) = quote_logs (tied_shard rev)
   \<and> fetch_last_logs_from_shard (tied_shard id) ''bitcoin'' 5
       = Inr [LogItem ''bitcoin'' 100 5, LogItem ''bitcoin'' 200 5]
   \<and> fetch_last_logs_from_shard (tied_shard rev) ''bitcoin'' 5
       = Inr [LogItem ''bitcoin'' 200 5, LogItem ''bitcoin'' 100 5]"
  by (simp add: lawful_def tied_shard_def fetch_last_logs_from_shard_def fetch_all_def
                select_recent_def log_item_of_def)

section \<open>Properties of the aggregator\<close>

lemma get_avg_field:
  "(case summary_value r of Some v \<Rightarrow> get_avg r = v | None \<Rightarrow> is_marker (get_avg r))"
  by (cases r rule: get_avg.cases) (simp_all add: is_marker_def split: option.split)

text \<open>
  C2. \<^verbatim>\<open>get_full_report\<close> returns normally, with the report composed from the outcomes of
  its four tasks. A price-summary task delivers an average only when the GET succeeds
  with a body that is an object with the key \<^verbatim>\<open>average_price\<close>; a transport failure (an
  error payload), a non-2xx status and an undecodable body (exceptions) deliver none. A
  log task never raises: it returns the items, or the error item when the query raised.
  Whatever the four outcomes are, each field of the report depends on the outcome of its
  own task alone: a price-summary field is the average the task delivered, or one of the
  two markers when it delivered none; a log field is the list the task returned, or the
  marker \<^verbatim>\<open>"Erro"\<close> for an exception. So a task that fails marks its own field and leaves
  the other three with their values.
\<close>

theorem report_fields_value_or_marker:
  "get_full_report get_btc get_eth shard1 shard2
     = Inr (response_data (fetch_current_average_price get_btc ''bitcoin'')
                          (fetch_current_average_price get_eth ''ethereum'')
                          (fetch_last_logs_from_shard shard1 ''bitcoin'' 5)
                          (fetch_last_logs_from_shard shard2 ''ethereum'' 5))
   \<and> summary_value (fetch_current_average_price RequestFails c) = None
   \<and> summary_value (fetch_current_average_price (Responds False body) c) = None
   \<and> summary_value (fetch_current_average_price (Responds True None) c) = None
   \<and> summary_value (fetch_current_average_price (Responds True (Some j)) c)
       = summary_value (Inr j)
   \<and> fetch_last_logs_from_shard shard c k
       = Inr (if online shard then map log_item_of (select_recent shard c k)
              else logs_unavailable c)
   \<and> (case summary_value avg_btc of
         Some v \<Rightarrow> media_precos_bitcoin (response_data avg_btc avg_eth logs_btc logs_eth) = v
       | None \<Rightarrow> is_marker (media_precos_bitcoin (response_data avg_btc avg_eth logs_btc logs_eth)))
   \<and> (case summary_value avg_eth of
         Some v \<Rightarrow> media_precos_ethereum (response_data avg_btc avg_eth logs_btc logs_eth) = v
       | None \<Rightarrow> is_marker (media_precos_ethereum (response_data avg_btc avg_eth logs_btc logs_eth)))
   \<and> (case logs_btc of
         Inr logs \<Rightarrow> ultimos_logs_bitcoin (response_data avg_btc avg_eth logs_btc logs_eth) = Logs logs
       | Inl e \<Rightarrow> ultimos_logs_bitcoin (response_data avg_btc avg_eth logs_btc logs_eth) = LogsErro)
   \<and> (case logs_eth of
         Inr logs \<Rightarrow> ultimos_logs_ethereum (response_data avg_btc avg_eth logs_btc logs_eth) = Logs logs
       | Inl e \<Rightarrow> ultimos_logs_ethereum (response_data avg_btc avg_eth logs_btc logs_eth) = LogsErro)"
proof (intro conjI)
  show "get_full_report get_btc get_eth shard1 shard2
     = Inr (response_data (fetch_current_average_price get_btc ''bitcoin'')
                          (fetch_current_average_price get_eth ''ethereum'')
                          (fetch_last_logs_from_shard shard1 ''bitcoin'' 5)
                          (fetch_last_logs_from_shard shard2 ''ethereum'' 5))"
    by (simp add: get_full_report_def)
  show "summary_value (fetch_current_average_price RequestFails c) = None"
    by (simp add: fetch_current_average_price_def)
  show "summary_value (fetch_current_average_price (Responds False body) c) = None"
    by (simp add: fetch_current_average_price_def)
  show "summary_value (fetch_current_average_price (Responds True None) c) = None"
    by (simp add: fetch_current_average_price_def)
  show "summary_value (fetch_current_average_price (Responds True (Some j)) c)
       = summary_value (Inr j)"
    by (simp add: fetch_current_average_price_def)
  show "fetch_last_logs_from_shard shard c k
       = Inr (if online shard then map log_item_of (select_recent shard c k)
              else logs_unavailable c)"
    by (simp add: fetch_last_logs_from_shard_def fetch_all_def logs_unavailable_def)
  show "case summary_value avg_btc of
         Some v \<Rightarrow> media_precos_bitcoin (response_data avg_btc avg_eth logs_btc logs_eth) = v
       | None \<Rightarrow> is_marker (media_precos_bitcoin (response_data avg_btc avg_eth logs_btc logs_eth))"
    using get_avg_field [of avg_btc] by (simp add: response_data_def split: option.splits)
  show "case summary_value avg_eth of
         Some v \<Rightarrow> media_precos_ethereum (response_data avg_btc avg_eth logs_btc logs_eth) = v
       | None \<Rightarrow> is_marker (media_precos_ethereum (response_data avg_btc avg_eth logs_btc logs_eth))"
    using get_avg_field [of avg_eth] by (simp add: response_data_def split: option.splits)
  show "case logs_btc of
         Inr logs \<Rightarrow> ultimos_logs_bitcoin (response_data avg_btc avg_eth logs_btc logs_eth) = Logs logs
       | Inl e \<Rightarrow> ultimos_logs_bitcoin (response_data avg_btc avg_eth logs_btc logs_eth) = LogsErro"
    by (cases logs_btc) (simp_all add: response_data_def)
  show "case logs_eth of
         Inr logs \<Rightarrow> ultimos_logs_ethereum (response_data avg_btc avg_eth logs_btc logs_eth) = Logs logs
       | Inl e \<Rightarrow> ultimos_logs_ethereum (response_data avg_btc avg_eth logs_btc logs_eth) = LogsErro"
    by (cases logs_eth) (simp_all add: response_data_def)
qed


theorem report_fields_value_or_marker_witness:
  "get_full_report (Responds True (Some (summary_body 150))) RequestFails two_logs empty_shard
     = Inr \<lparr>media_precos_bitcoin = JNumber 150,
            media_precos_ethereum = JString key_not_found,
            ultimos_logs_bitcoin = Logs [LogItem ''bitcoin'' 200 2, LogItem ''bitcoin'' 100 1],
            ultimos_logs_ethereum = Logs []\<rparr>"
proof -
  have "fetch_last_logs_from_shard two_logs ''bitcoin'' 5
          = Inr [LogItem ''bitcoin'' 200 2, LogItem ''bitcoin'' 100 1]"
    by (simp add: fetch_last_logs_from_shard_def fetch_all_def select_recent_def two_logs_def
                  empty_shard_def log_item_of_def)
  moreover have "fetch_last_logs_from_shard empty_shard ''ethereum'' 5 = Inr []"
    by (simp add: fetch_last_logs_from_shard_def fetch_all_def select_recent_def empty_shard_def)
  moreover have "get_avg (fetch_current_average_price (Responds True (Some (summary_body 150)))
                            ''bitcoin'') = JNumber 150"
    by (simp add: fetch_current_average_price_def summary_body_def)
  moreover have "get_avg (fetch_current_average_price RequestFails ''ethereum'')
                   = JString key_not_found"
    by (simp add: fetch_current_average_price_def)
  ultimately show ?thesis
    using report_fields_value_or_marker
            [of "Responds True (Some (summary_body 150))" RequestFails two_logs empty_shard]
    by (simp add: response_data_def)
qed

end
